theory Spec2Isabelle
  imports Main "HOL-Library.Word"
begin

section \<open>The accounting API client (docs/examples/python-client.py)\<close>

text \<open>
  The client is a Python class \<open>AccountingApiClient\<close> over the \<open>requests\<close> library.
  Its methods build one HTTP request each, hand it to a \<open>requests.Session\<close> and pass the
  response through \<open>_handle_response\<close>. The embedding makes the three effects of a method
  explicit: the value returned or the exception raised, the client object after the call,
  and the list of requests handed to the session.
\<close>

subsection \<open>Python values\<close>

text \<open>
  The values that JSON decoding produces, and that the client stores and passes on:
  \<open>None\<close>, \<open>bool\<close>, \<open>int\<close> (unbounded), \<open>float\<close> (an IEEE-754 double, kept by its
  64 bits: the client never computes with one), \<open>str\<close>, \<open>list\<close> and \<open>dict\<close> with
  string keys (an association list in insertion order; lookup is \<open>map_of\<close>).
\<close>

datatype pyval =
    PyNone
  | PyBool bool
  | PyInt int
  | PyFloat "64 word"
  | PyStr string
  | PyList "pyval list"
  | PyDict "(string \<times> pyval) list"

text \<open>Python's truth value of an object, as tested by \<open>if x:\<close> and \<open>not x\<close>.\<close>

fun truthy :: "pyval \<Rightarrow> bool" where
  "truthy PyNone = False"
| "truthy (PyBool b) = b"
| "truthy (PyInt i) = (i \<noteq> 0)"
| "truthy (PyFloat w) = (w \<noteq> 0 \<and> w \<noteq> 0x8000000000000000)"
| "truthy (PyStr s) = (s \<noteq> [])"
| "truthy (PyList xs) = (xs \<noteq> [])"
| "truthy (PyDict kvs) = (kvs \<noteq> [])"

subsection \<open>Requests, responses and errors\<close>

datatype http_method = GET | POST

text \<open>
  The arguments of one call \<open>session.get(url, ...)\<close> or \<open>session.post(url, ...)\<close>.
  \<open>headers\<close> and \<open>params\<close> are \<open>None\<close> when the keyword is not passed;
  \<open>json_body\<close> is the \<open>json=\<close> keyword, \<open>PyNone\<close> (Python's default) when not passed.
\<close>

record request =
  verb :: http_method
  url :: string
  headers :: "(string \<times> string) list option"
  params :: "(string \<times> pyval) list option"
  json_body :: pyval

text \<open>
  A \<open>requests.Response\<close>: its status code, its body, and what \<open>response.json()\<close>
  gives: the decoded body, or \<open>None\<close> when the body is not JSON and the call raises.
\<close>

record response =
  status_code :: int
  content :: string
  json_result :: "pyval option"

datatype error =
    PyException string
  | HTTPError response
  | JSONDecodeError
  | KeyError string
  | TypeError
  | ConnectionError

text \<open>
  What the client does not implement: the transport (\<open>send\<close>: the session call, which
  returns a response or raises), and Python's \<open>str()\<close> of a float, a list or a dict
  (\<open>str_of\<close>: the \<open>repr\<close> of floats and of containers is not modelled).
\<close>

record env =
  send :: "request \<Rightarrow> error + response"
  str_of :: "pyval \<Rightarrow> string"

text \<open>Python's \<open>str()\<close> of an \<open>int\<close>: decimal digits, with a minus sign when negative.\<close>

function str_nat :: "nat \<Rightarrow> string" where
  "str_nat n =
     (if n < 10 then [''0123456789'' ! n]
      else str_nat (n div 10) @ [''0123456789'' ! (n mod 10)])"
  by pat_completeness auto
termination
  by (relation "measure id") auto

declare str_nat.simps [simp del]

definition str_int :: "int \<Rightarrow> string" where
  "str_int i = (if i < 0 then CHR ''-'' # str_nat (nat (- i)) else str_nat (nat i))"

text \<open>
  \<open>f'{v}'\<close>: a string is interpolated as it is, any other value through \<open>str()\<close>:
  \<open>None\<close>, \<open>True\<close> or \<open>False\<close>, the digits of an \<open>int\<close>.
\<close>

fun fstring :: "env \<Rightarrow> pyval \<Rightarrow> string" where
  "fstring e (PyStr s) = s"
| "fstring e PyNone = ''None''"
| "fstring e (PyBool b) = (if b then ''True'' else ''False'')"
| "fstring e (PyInt i) = str_int i"
| "fstring e v = str_of e v"

text \<open>\<open>result[key]\<close> with a string key: only a dict can be indexed by a string.\<close>

fun subscript :: "pyval \<Rightarrow> string \<Rightarrow> error + pyval" where
  "subscript (PyDict kvs) k = (case map_of kvs k of None \<Rightarrow> Inl (KeyError k) | Some v \<Rightarrow> Inr v)"
| "subscript v k = Inl TypeError"

text \<open>
  \<open>Response.raise_for_status\<close> of the \<open>requests\<close> library: it raises \<open>HTTPError\<close>,
  which holds the response, for a status code from 400 to 599, and returns otherwise.
\<close>

definition raise_for_status :: "response \<Rightarrow> error + unit" where
  "raise_for_status r =
     (if 400 \<le> status_code r \<and> status_code r < 500 then Inl (HTTPError r)
      else if 500 \<le> status_code r \<and> status_code r < 600 then Inl (HTTPError r)
      else Inr ())"

subsection \<open>The client\<close>

record client =
  base_url :: string
  access_token :: pyval
  refresh_token :: pyval
  session_headers :: "(string \<times> string) list"

text \<open>
  \<open>__init__\<close>: no tokens; the session's headers get \<open>Content-Type\<close> and \<open>Accept\<close>
  (on top of the library's defaults, which are not modelled).
\<close>

definition init :: "string \<Rightarrow> client" where
  "init b =
     \<lparr>base_url = b, access_token = PyNone, refresh_token = PyNone,
      session_headers = [(''Content-Type'', ''application/json''), (''Accept'', ''application/json'')]\<rparr>"

text \<open>\<open>_get_headers\<close>\<close>

definition get_headers :: "env \<Rightarrow> client \<Rightarrow> (string \<times> string) list" where
  "get_headers e c =
     (if truthy (access_token c)
      then [(''Authorization'', ''Bearer '' @ fstring e (access_token c))]
      else [])"

text \<open>\<open>_handle_response\<close>\<close>

definition handle_response :: "response \<Rightarrow> error + pyval" where
  "handle_response r =
     (if status_code r = 401 then Inl (PyException ''Authentication failed. Please login again.'')
      else case raise_for_status r of
             Inl err \<Rightarrow> Inl err
           | Inr u \<Rightarrow> (case json_result r of None \<Rightarrow> Inl JSONDecodeError | Some j \<Rightarrow> Inr j))"

text \<open>
  The outcome of a method: what it returns (\<open>Inr\<close>) or raises (\<open>Inl\<close>), the client
  after the call, and the requests handed to the session, in order.
\<close>

type_synonym outcome = "(error + pyval) \<times> client \<times> request list"

definition result_of :: "outcome \<Rightarrow> error + pyval" where
  "result_of out = fst out"

definition state_of :: "outcome \<Rightarrow> client" where
  "state_of out = fst (snd out)"

definition sent_of :: "outcome \<Rightarrow> request list" where
  "sent_of out = snd (snd out)"

definition login :: "env \<Rightarrow> client \<Rightarrow> string \<Rightarrow> string \<Rightarrow> string \<Rightarrow> outcome" where
  "login e c email password organization_id =
     (let data = PyDict [(''email'', PyStr email), (''password'', PyStr password),
                         (''organizationId'', PyStr organization_id)];
          req = \<lparr>verb = POST, url = base_url c @ ''/auth/login'', headers = None,
                 params = None, json_body = data\<rparr>
      in case send e req of
           Inl err \<Rightarrow> (Inl err, c, [req])
         | Inr resp \<Rightarrow>
             (case handle_response resp of
                Inl err \<Rightarrow> (Inl err, c, [req])
              | Inr result \<Rightarrow>
                  (case subscript result ''accessToken'' of
                     Inl err \<Rightarrow> (Inl err, c, [req])
                   | Inr a \<Rightarrow>
                       (case subscript result ''refreshToken'' of
                          Inl err \<Rightarrow> (Inl err, c\<lparr>access_token := a\<rparr>, [req])
                        | Inr b \<Rightarrow>
                            (Inr result, c\<lparr>access_token := a, refresh_token := b\<rparr>, [req])))))"

definition refresh_access_token :: "env \<Rightarrow> client \<Rightarrow> outcome" where
  "refresh_access_token e c =
     (if \<not> truthy (refresh_token c) then (Inl (PyException ''No refresh token available''), c, [])
      else
        let data = PyDict [(''refreshToken'', refresh_token c)];
            req = \<lparr>verb = POST, url = base_url c @ ''/auth/refresh'', headers = None,
                   params = None, json_body = data\<rparr>
        in case send e req of
             Inl err \<Rightarrow> (Inl err, c, [req])
           | Inr resp \<Rightarrow>
               (case handle_response resp of
                  Inl err \<Rightarrow> (Inl err, c, [req])
                | Inr result \<Rightarrow>
                    (case subscript result ''accessToken'' of
                       Inl err \<Rightarrow> (Inl err, c, [req])
                     | Inr a \<Rightarrow>
                         (case subscript result ''refreshToken'' of
                            Inl err \<Rightarrow> (Inl err, c\<lparr>access_token := a\<rparr>, [req])
                          | Inr b \<Rightarrow>
                              (Inr result, c\<lparr>access_token := a, refresh_token := b\<rparr>, [req])))))"

text \<open>
  The five resource methods share one shape: build the URL, take \<open>_get_headers()\<close>, make
  the session call, return \<open>_handle_response(response)\<close>. None assigns to \<open>self\<close>.
\<close>

definition get_customers :: "env \<Rightarrow> client \<Rightarrow> (string \<times> pyval) list \<Rightarrow> outcome" where
  "get_customers e c ps =
     (let req = \<lparr>verb = GET, url = base_url c @ ''/customers'',
                 headers = Some (get_headers e c), params = Some ps, json_body = PyNone\<rparr>
      in case send e req of
           Inl err \<Rightarrow> (Inl err, c, [req])
         | Inr resp \<Rightarrow> (handle_response resp, c, [req]))"

definition create_customer :: "env \<Rightarrow> client \<Rightarrow> pyval \<Rightarrow> outcome" where
  "create_customer e c customer_data =
     (let req = \<lparr>verb = POST, url = base_url c @ ''/customers'',
                 headers = Some (get_headers e c), params = None, json_body = customer_data\<rparr>
      in case send e req of
           Inl err \<Rightarrow> (Inl err, c, [req])
         | Inr resp \<Rightarrow> (handle_response resp, c, [req]))"

definition get_customer :: "env \<Rightarrow> client \<Rightarrow> string \<Rightarrow> outcome" where
  "get_customer e c customer_id =
     (let req = \<lparr>verb = GET, url = base_url c @ ''/customers/'' @ customer_id,
                 headers = Some (get_headers e c), params = None, json_body = PyNone\<rparr>
      in case send e req of
           Inl err \<Rightarrow> (Inl err, c, [req])
         | Inr resp \<Rightarrow> (handle_response resp, c, [req]))"

definition create_invoice :: "env \<Rightarrow> client \<Rightarrow> pyval \<Rightarrow> outcome" where
  "create_invoice e c invoice_data =
     (let req = \<lparr>verb = POST, url = base_url c @ ''/invoices'',
                 headers = Some (get_headers e c), params = None, json_body = invoice_data\<rparr>
      in case send e req of
           Inl err \<Rightarrow> (Inl err, c, [req])
         | Inr resp \<Rightarrow> (handle_response resp, c, [req]))"

definition get_invoices :: "env \<Rightarrow> client \<Rightarrow> (string \<times> pyval) list \<Rightarrow> outcome" where
  "get_invoices e c ps =
     (let req = \<lparr>verb = GET, url = base_url c @ ''/invoices'',
                 headers = Some (get_headers e c), params = Some ps, json_body = PyNone\<rparr>
      in case send e req of
           Inl err \<Rightarrow> (Inl err, c, [req])
         | Inr resp \<Rightarrow> (handle_response resp, c, [req]))"

subsection \<open>The public interface as a datatype\<close>

text \<open>
  One constructor per exposed method with its arguments, and \<open>perform\<close>, which calls the
  method. They serve to state a property of every operation once.
\<close>

datatype call =
    Login string string string
  | RefreshAccessToken
  | GetCustomers "(string \<times> pyval) list"
  | CreateCustomer pyval
  | GetCustomer string
  | CreateInvoice pyval
  | GetInvoices "(string \<times> pyval) list"

fun perform :: "env \<Rightarrow> client \<Rightarrow> call \<Rightarrow> outcome" where
  "perform e c (Login email password organization_id) = login e c email password organization_id"
| "perform e c RefreshAccessToken = refresh_access_token e c"
| "perform e c (GetCustomers ps) = get_customers e c ps"
| "perform e c (CreateCustomer d) = create_customer e c d"
| "perform e c (GetCustomer i) = get_customer e c i"
| "perform e c (CreateInvoice d) = create_invoice e c d"
| "perform e c (GetInvoices ps) = get_invoices e c ps"

text \<open>The methods that call \<open>_get_headers\<close>: all but the two authentication calls.\<close>

fun is_resource_call :: "call \<Rightarrow> bool" where
  "is_resource_call (Login email password organization_id) = False"
| "is_resource_call RefreshAccessToken = False"
| "is_resource_call other = True"

text \<open>
  A transport that answers every request with the same response. The \<open>repr\<close> of a float,
  a list or a dict is left unspecified in it: no example interpolates one.
\<close>

definition answering :: "response \<Rightarrow> env" where
  "answering r = \<lparr>send = (\<lambda>req. Inr r), str_of = (\<lambda>v. undefined)\<rparr>"

subsection \<open>Example values\<close>

definition example_client :: client where
  "example_client = init ''http://localhost:3000/api/v1''"

definition login_ok :: response where
  \<open>login_ok =
     \<lparr>status_code = 200,
      content = ''{"accessToken": "a", "refreshToken": "b", "user": {}}'',
      json_result = Some (PyDict [(''accessToken'', PyStr ''a''), (''refreshToken'', PyStr ''b''),
                                  (''user'', PyDict [])])\<rparr>\<close>

definition login_empty_token :: response where
  \<open>login_empty_token =
     \<lparr>status_code = 200,
      content = ''{"accessToken": "", "refreshToken": "b"}'',
      json_result = Some (PyDict [(''accessToken'', PyStr []), (''refreshToken'', PyStr ''b'')])\<rparr>\<close>

definition login_no_refresh :: response where
  \<open>login_no_refresh =
     \<lparr>status_code = 200,
      content = ''{"accessToken": "n"}'',
      json_result = Some (PyDict [(''accessToken'', PyStr ''n'')])\<rparr>\<close>

definition unauthorized :: response where
  \<open>unauthorized =
     \<lparr>status_code = 401,
      content = ''{"accessToken": "a", "refreshToken": "b"}'',
      json_result = Some (PyDict [(''accessToken'', PyStr ''a''), (''refreshToken'', PyStr ''b'')])\<rparr>\<close>

definition server_error :: response where
  "server_error = \<lparr>status_code = 500, content = ''Internal Server Error'', json_result = None\<rparr>"

definition not_modified :: response where
  "not_modified = \<lparr>status_code = 304, content = [], json_result = None\<rparr>"

definition moved_permanently :: response where
  \<open>moved_permanently =
     \<lparr>status_code = 301,
      content = ''{"location": "/v2"}'',
      json_result = Some (PyDict [(''location'', PyStr ''/v2'')])\<rparr>\<close>

definition customers_page :: response where
  \<open>customers_page =
     \<lparr>status_code = 200,
      content = ''{"data": [], "meta": {"total": 0}}'',
      json_result = Some (PyDict [(''data'', PyList []), (''meta'', PyDict [(''total'', PyInt 0)])])\<rparr>\<close>

text \<open>The client after the login of the example driver, answered with \<open>login_ok\<close>.\<close>

definition logged_in :: client where
  "logged_in = state_of (login (answering login_ok) example_client
                 ''admin@example.com'' ''SecurePassword123!'' ''550e8400-e29b-41d4-a716-446655440000'')"

section \<open>Properties\<close>

subsection \<open>The response checkpoint\<close>

lemma handle_response_401:
  "status_code r = 401 \<Longrightarrow>
   handle_response r = Inl (PyException ''Authentication failed. Please login again.'')"
  by (simp add: handle_response_def)

lemma handle_response_error_status:
  "400 \<le> status_code r \<Longrightarrow> status_code r < 600 \<Longrightarrow> status_code r \<noteq> 401 \<Longrightarrow>
   handle_response r = Inl (HTTPError r)"
  by (simp add: handle_response_def raise_for_status_def)

lemma handle_response_no_raise:
  "status_code r < 400 \<or> 600 \<le> status_code r \<Longrightarrow>
   handle_response r = (case json_result r of None \<Rightarrow> Inl JSONDecodeError | Some j \<Rightarrow> Inr j)"
  by (auto simp add: handle_response_def raise_for_status_def)

lemmas method_defs = login_def refresh_access_token_def get_customers_def create_customer_def
  get_customer_def create_invoice_def get_invoices_def

lemmas example_defs = example_client_def init_def answering_def login_ok_def login_empty_token_def
  login_no_refresh_def unauthorized_def server_error_def not_modified_def moved_permanently_def
  customers_page_def

lemma logged_in_eq:
  "logged_in = example_client\<lparr>access_token := PyStr ''a'', refresh_token := PyStr ''b''\<rparr>"
  by (simp add: logged_in_def state_of_def login_def example_defs handle_response_def
      raise_for_status_def)

text \<open>Every method passes an error of the checkpoint on and leaves the client as it was.\<close>

lemma perform_checkpoint_error:
  "sent_of (perform e c call) = [req] \<Longrightarrow> send e req = Inr r \<Longrightarrow> handle_response r = Inl err \<Longrightarrow>
   perform e c call = (Inl err, c, [req])"
  by (cases call) (auto simp add: method_defs sent_of_def Let_def split: if_splits sum.splits)

text \<open>A resource method sends one request with the headers of \<open>_get_headers\<close>.\<close>

lemma resource_call_headers:
  "is_resource_call call \<Longrightarrow> map headers (sent_of (perform e c call)) = [Some (get_headers e c)]"
  by (cases call) (auto simp add: method_defs sent_of_def Let_def split: sum.splits)

lemma resource_call_state:
  "is_resource_call call \<Longrightarrow> state_of (perform e c call) = c"
  by (cases call) (auto simp add: method_defs state_of_def Let_def split: sum.splits)

text \<open>The request of each authentication call does not depend on the answer.\<close>

lemma login_sent:
  "sent_of (login e c email password organization_id) =
     [\<lparr>verb = POST, url = base_url c @ ''/auth/login'', headers = None, params = None,
       json_body = PyDict [(''email'', PyStr email), (''password'', PyStr password),
                           (''organizationId'', PyStr organization_id)]\<rparr>]"
  by (simp add: login_def sent_of_def Let_def split: sum.splits)

lemma refresh_sent:
  "sent_of (refresh_access_token e c) =
     (if \<not> truthy (refresh_token c) then []
      else [\<lparr>verb = POST, url = base_url c @ ''/auth/refresh'', headers = None, params = None,
             json_body = PyDict [(''refreshToken'', refresh_token c)]\<rparr>])"
  by (simp add: refresh_access_token_def sent_of_def Let_def split: sum.splits)

text \<open>
  Every operation sends exactly one request, but \<open>refresh_access_token\<close> without a
  refresh token, which sends none.
\<close>

lemma perform_sends_one:
  "call = RefreshAccessToken \<longrightarrow> truthy (refresh_token c) \<Longrightarrow>
   \<exists>req. sent_of (perform e c call) = [req]"
  by (cases call) (auto simp add: method_defs sent_of_def Let_def split: sum.splits)

text \<open>The answer reaches an operation through the checkpoint only.\<close>

lemma fstring_cong:
  "str_of e' = str_of e \<Longrightarrow> fstring e' v = fstring e v"
  by (cases v) simp_all

lemma perform_checkpoint_only:
  assumes "send e = (\<lambda>req. Inr r)" and "send e' = (\<lambda>req. Inr r')"
    and "str_of e' = str_of e" and "handle_response r' = handle_response r"
  shows "perform e' c call = perform e c call"
proof -
  have same_headers: "get_headers e' c = get_headers e c"
    by (simp add: get_headers_def fstring_cong [OF assms(3)])
  show ?thesis
    by (cases call) (simp_all add: method_defs assms(1,2,4) same_headers)
qed

text \<open>Indexing raises \<open>KeyError\<close> or \<open>TypeError\<close> only.\<close>

lemma subscript_error:
  "subscript v k = Inl err \<Longrightarrow> err = KeyError k \<or> err = TypeError"
  by (cases v) (auto split: option.splits)

text \<open>The model's \<open>str()\<close> at work: a token that is the \<open>int\<close> 123.\<close>

lemma int_token_header:
  "get_headers e (c\<lparr>access_token := PyInt 123\<rparr>) = [(''Authorization'', ''Bearer 123'')]"
  by (simp add: get_headers_def str_int_def str_nat.simps)

subsection \<open>Login\<close>

text \<open>
  C1. When the login request is answered with a 2xx response whose decoded body is an object
  with the keys \<open>accessToken\<close> and \<open>refreshToken\<close>, \<open>login\<close> has sent one POST to
  \<open>base_url + "/auth/login"\<close> with the credentials as JSON body, has stored the two values
  in \<open>access_token\<close> and \<open>refresh_token\<close>, and returns the decoded body as it is.
\<close>

theorem login_stores_tokens:
  assumes "req = \<lparr>verb = POST, url = base_url c @ ''/auth/login'', headers = None, params = None,
                  json_body = PyDict [(''email'', PyStr email), (''password'', PyStr password),
                                      (''organizationId'', PyStr organization_id)]\<rparr>"
    and "send e req = Inr r"
    and "200 \<le> status_code r" and "status_code r < 300"
    and "json_result r = Some (PyDict body)"
    and "map_of body ''accessToken'' = Some a"
    and "map_of body ''refreshToken'' = Some b"
  shows "login e c email password organization_id =
           (Inr (PyDict body), c\<lparr>access_token := a, refresh_token := b\<rparr>, [req])"
proof -
  have "handle_response r = Inr (PyDict body)"
    using assms(3,4,5) by (simp add: handle_response_no_raise)
  then show ?thesis
    using assms(1,2,6,7) by (simp add: login_def)
qed

theorem login_stores_tokens_witness:
  "login (answering login_ok) example_client ''admin@example.com'' ''SecurePassword123!'' ''550e8400''
   = (Inr (PyDict [(''accessToken'', PyStr ''a''), (''refreshToken'', PyStr ''b''), (''user'', PyDict [])]),
      example_client\<lparr>access_token := PyStr ''a'', refresh_token := PyStr ''b''\<rparr>,
      [\<lparr>verb = POST, url = ''http://localhost:3000/api/v1/auth/login'', headers = None, params = None,
        json_body = PyDict [(''email'', PyStr ''admin@example.com''),
                            (''password'', PyStr ''SecurePassword123!''),
                            (''organizationId'', PyStr ''550e8400'')]\<rparr>])"
  using login_stores_tokens [where c = example_client and email = "''admin@example.com''"
      and password = "''SecurePassword123!''" and organization_id = "''550e8400''"
      and e = "answering login_ok" and r = login_ok
      and body = "[(''accessToken'', PyStr ''a''), (''refreshToken'', PyStr ''b''), (''user'', PyDict [])]"
      and a = "PyStr ''a''" and b = "PyStr ''b''"]
  by (simp add: example_defs)

subsection \<open>The Authorization header\<close>

text \<open>
  C2, as the code has it. \<open>_get_headers\<close> tests the truth value of \<open>access_token\<close>, so
  the empty string counts as no token. For each of \<open>get_customers\<close>, \<open>create_customer\<close>,
  \<open>get_customer\<close>, \<open>create_invoice\<close> and \<open>get_invoices\<close>: when \<open>access_token\<close> holds a
  non-empty string \<open>a\<close>, the one request sent carries exactly the header
  \<open>Authorization: Bearer a\<close>; when \<open>access_token\<close> is \<open>None\<close> or empty, the one request is
  still sent, with no Authorization header.
\<close>

theorem resource_calls_bearer_header:
  assumes "is_resource_call call"
  shows "(access_token c = PyStr a \<and> a \<noteq> [] \<longrightarrow>
            map headers (sent_of (perform e c call)) = [Some [(''Authorization'', ''Bearer '' @ a)]])
       \<and> (access_token c = PyNone \<or> access_token c = PyStr [] \<longrightarrow>
            map headers (sent_of (perform e c call)) = [Some []])"
  using assms by (auto simp add: resource_call_headers get_headers_def)

theorem resource_calls_bearer_header_witness:
  "map headers (sent_of (perform (answering customers_page) logged_in
                  (GetCustomers [(''limit'', PyInt 20), (''offset'', PyInt 0)])))
     = [Some [(''Authorization'', ''Bearer a'')]]
   \<and> map headers (sent_of (perform (answering unauthorized) example_client (GetCustomer ''42'')))
     = [Some []]"
  using resource_calls_bearer_header [where call = "GetCustomers [(''limit'', PyInt 20), (''offset'', PyInt 0)]"
      and c = logged_in and a = "''a''" and e = "answering customers_page"]
    resource_calls_bearer_header [where call = "GetCustomer ''42''" and c = example_client
      and e = "answering unauthorized"]
  by (simp add: logged_in_eq example_client_def init_def)

text \<open>
  C2 as stated fails for the empty token: a login answered with \<open>"accessToken": ""\<close>
  stores the empty string, the client then holds a token, and \<open>get_customers\<close> sends its
  request without an Authorization header.
\<close>

theorem empty_token_no_header:
  "access_token (state_of (login (answering login_empty_token) example_client ''u'' ''p'' ''o''))
     = PyStr []
   \<and> map headers (sent_of (get_customers (answering customers_page)
        (state_of (login (answering login_empty_token) example_client ''u'' ''p'' ''o'')) []))
     = [Some []]"
  by (simp add: login_def get_customers_def get_headers_def state_of_def sent_of_def
      handle_response_def raise_for_status_def example_defs)

text \<open>
  C6, as the code has it. A method that calls \<open>_get_headers\<close> (every one but \<open>login\<close> and
  \<open>refresh_access_token\<close>) sends one request, with the header
  \<open>Authorization: Bearer <token>\<close> whenever the stored access token is true in Python's
  sense, and with no header otherwise. \<open>login\<close> and \<open>refresh_access_token\<close> pass no
  \<open>headers\<close> argument at all, whatever the token.
\<close>

theorem authorization_header_by_method:
  "map headers (sent_of (perform e c call)) =
     (if is_resource_call call
      then [Some (if truthy (access_token c)
                  then [(''Authorization'', ''Bearer '' @ fstring e (access_token c))]
                  else [])]
      else if call = RefreshAccessToken \<and> \<not> truthy (refresh_token c) then []
      else [None])"
proof (cases "is_resource_call call")
  case True
  then show ?thesis
    by (simp add: resource_call_headers get_headers_def)
next
  case False
  then show ?thesis
    by (cases call) (simp_all add: login_sent refresh_sent)
qed

theorem authorization_header_by_method_witness:
  "map headers (sent_of (perform (answering customers_page) logged_in (CreateInvoice (PyDict []))))
     = [Some [(''Authorization'', ''Bearer a'')]]
   \<and> map headers (sent_of (perform (answering login_ok) logged_in (Login ''u'' ''p'' ''o'')))
     = [None]"
  using authorization_header_by_method [where c = logged_in and e = "answering customers_page"
      and call = "CreateInvoice (PyDict [])"]
    authorization_header_by_method [where c = logged_in and e = "answering login_ok"
      and call = "Login ''u'' ''p'' ''o''"]
  by (simp add: logged_in_eq)

text \<open>
  C6 as stated fails for the two authentication calls: with the access token \<open>a\<close> stored by
  a login, a second \<open>login\<close> and a \<open>refresh_access_token\<close> each send their request with no
  \<open>headers\<close> argument, and the session's own headers hold no Authorization either.
\<close>

theorem auth_calls_send_no_authorization:
  "access_token logged_in = PyStr ''a''
   \<and> map headers (sent_of (login (answering login_ok) logged_in ''u'' ''p'' ''o'')) = [None]
   \<and> map headers (sent_of (refresh_access_token (answering login_ok) logged_in)) = [None]
   \<and> map_of (session_headers logged_in) ''Authorization'' = None"
  by (simp add: logged_in_eq login_def refresh_access_token_def sent_of_def
      handle_response_def raise_for_status_def example_defs)

subsection \<open>Errors of the response checkpoint\<close>

text \<open>
  C3. When the transport answers every request with status 401, each of the seven
  operations sends its one request and raises the exception with the message
  \<open>Authentication failed. Please login again.\<close>, whatever the bodies of the responses;
  the client is left as it was. (\<open>refresh_access_token\<close> gets a response only when it
  holds a refresh token.)
\<close>

theorem status_401_raises_authentication_failed:
  assumes "\<forall>req. \<exists>r. send e req = Inr r \<and> status_code r = 401"
    and "call = RefreshAccessToken \<longrightarrow> truthy (refresh_token c)"
  shows "result_of (perform e c call) =
           Inl (PyException ''Authentication failed. Please login again.'')
       \<and> state_of (perform e c call) = c
       \<and> length (sent_of (perform e c call)) = 1"
proof -
  obtain req where sent: "sent_of (perform e c call) = [req]"
    using perform_sends_one [OF assms(2)] by blast
  obtain r where answer: "send e req = Inr r" and status: "status_code r = 401"
    using assms(1) by blast
  have "perform e c call =
          (Inl (PyException ''Authentication failed. Please login again.''), c, [req])"
    using perform_checkpoint_error [OF sent answer handle_response_401 [OF status]] .
  then show ?thesis
    by (simp add: result_of_def state_of_def sent_of_def)
qed

theorem status_401_raises_authentication_failed_witness:
  "result_of (perform (answering unauthorized) example_client (Login ''u'' ''p'' ''o'')) =
     Inl (PyException ''Authentication failed. Please login again.'')
   \<and> result_of (perform (answering unauthorized) logged_in RefreshAccessToken) =
       Inl (PyException ''Authentication failed. Please login again.'')
   \<and> result_of (perform (answering unauthorized) logged_in (CreateCustomer (PyDict []))) =
       Inl (PyException ''Authentication failed. Please login again.'')
   \<and> length (sent_of (perform (answering unauthorized) logged_in (CreateCustomer (PyDict [])))) = 1"
  using status_401_raises_authentication_failed [where e = "answering unauthorized"
      and c = example_client and call = "Login ''u'' ''p'' ''o''"]
    status_401_raises_authentication_failed [where e = "answering unauthorized"
      and c = logged_in and call = RefreshAccessToken]
    status_401_raises_authentication_failed [where e = "answering unauthorized"
      and c = logged_in and call = "CreateCustomer (PyDict [])"]
  by (simp add: answering_def unauthorized_def logged_in_eq)

text \<open>
  C4, as the code has it. The checkpoint leaves every status but 401 to
  \<open>raise_for_status\<close>, which raises for 400 to 599 only. When the transport answers
  every request with the response \<open>r\<close>:
  \<^item> if the status of \<open>r\<close> is from 400 to 599 and not 401, each operation sends its one
    request, raises \<open>HTTPError\<close> holding \<open>r\<close> (status code and body), returns no decoded
    value and leaves the client as it was;
  \<^item> if the status of \<open>r\<close> is below 400 or from 600 (1xx, 3xx such as 301 or 304, 600 and
    above), each operation does exactly what it does when the same response comes with
    status 200: no \<open>HTTPError\<close> is raised and the body is decoded.
\<close>

theorem error_status_raises_http_error:
  assumes "send e = (\<lambda>req. Inr r)"
    and "call = RefreshAccessToken \<longrightarrow> truthy (refresh_token c)"
  shows "(400 \<le> status_code r \<and> status_code r < 600 \<and> status_code r \<noteq> 401 \<longrightarrow>
            result_of (perform e c call) = Inl (HTTPError r)
          \<and> state_of (perform e c call) = c
          \<and> length (sent_of (perform e c call)) = 1)
       \<and> (status_code r < 400 \<or> 600 \<le> status_code r \<longrightarrow>
            perform e c call =
              perform (e\<lparr>send := \<lambda>req. Inr (r\<lparr>status_code := 200\<rparr>)\<rparr>) c call)"
proof (intro conjI impI)
  assume range: "400 \<le> status_code r \<and> status_code r < 600 \<and> status_code r \<noteq> 401"
  obtain req where sent: "sent_of (perform e c call) = [req]"
    using perform_sends_one [OF assms(2)] by blast
  have answer: "send e req = Inr r"
    using assms(1) by simp
  have raised: "handle_response r = Inl (HTTPError r)"
    using range by (simp add: handle_response_error_status)
  have out: "perform e c call = (Inl (HTTPError r), c, [req])"
    using perform_checkpoint_error [OF sent answer raised] .
  show "result_of (perform e c call) = Inl (HTTPError r)"
    using out by (simp add: result_of_def)
  show "state_of (perform e c call) = c"
    using out by (simp add: state_of_def)
  show "length (sent_of (perform e c call)) = 1"
    using out by (simp add: sent_of_def)
next
  assume other: "status_code r < 400 \<or> 600 \<le> status_code r"
  have same: "handle_response (r\<lparr>status_code := 200\<rparr>) = handle_response r"
    using other by (simp add: handle_response_no_raise)
  have "perform (e\<lparr>send := \<lambda>req. Inr (r\<lparr>status_code := 200\<rparr>)\<rparr>) c call = perform e c call"
    by (rule perform_checkpoint_only [where r = r and r' = "r\<lparr>status_code := 200\<rparr>"])
      (simp_all add: assms(1) same)
  then show "perform e c call =
               perform (e\<lparr>send := \<lambda>req. Inr (r\<lparr>status_code := 200\<rparr>)\<rparr>) c call"
    by simp
qed

theorem error_status_raises_http_error_witness:
  "result_of (perform (answering server_error) example_client (GetInvoices [])) =
     Inl (HTTPError \<lparr>status_code = 500, content = ''Internal Server Error'', json_result = None\<rparr>)
   \<and> result_of (perform (answering server_error) logged_in (CreateCustomer (PyDict []))) =
       Inl (HTTPError \<lparr>status_code = 500, content = ''Internal Server Error'', json_result = None\<rparr>)
   \<and> length (sent_of (perform (answering server_error) logged_in (CreateCustomer (PyDict [])))) = 1
   \<and> perform (answering moved_permanently) logged_in (GetCustomer ''42'') =
       perform ((answering moved_permanently)
                  \<lparr>send := \<lambda>req. Inr (moved_permanently\<lparr>status_code := 200\<rparr>)\<rparr>)
         logged_in (GetCustomer ''42'')"
  using error_status_raises_http_error [where e = "answering server_error"
      and c = example_client and call = "GetInvoices []" and r = server_error]
    error_status_raises_http_error [where e = "answering server_error"
      and c = logged_in and call = "CreateCustomer (PyDict [])" and r = server_error]
    error_status_raises_http_error [where e = "answering moved_permanently"
      and c = logged_in and call = "GetCustomer ''42''" and r = moved_permanently]
  by (simp add: answering_def server_error_def moved_permanently_def)

text \<open>
  C4 as stated fails for 3xx: a 301 whose body is JSON is decoded and returned like a
  success, and a 304, which has no body, ends in the JSON decoding error, not in
  \<open>HTTPError\<close>.
\<close>

theorem redirect_status_no_http_error:
  "status_code moved_permanently = 301
   \<and> result_of (perform (answering moved_permanently) example_client (GetCustomers [])) =
       Inr (PyDict [(''location'', PyStr ''/v2'')])
   \<and> status_code not_modified = 304
   \<and> result_of (perform (answering not_modified) example_client (GetCustomers [])) =
       Inl JSONDecodeError"
  by (simp add: get_customers_def result_of_def handle_response_def raise_for_status_def
      example_defs)

text \<open>
  C9. When the request of \<open>login\<close> or of \<open>refresh_access_token\<close> is answered and the
  checkpoint raises (the 401 exception, \<open>HTTPError\<close>, or the decoding error), the call
  raises that error and the client, its two tokens included, is what it was before. And
  whenever one of the two calls ends in the 401 exception (or another plain exception), in
  \<open>HTTPError\<close> or in the decoding error, the client is what it was before.
\<close>

theorem failed_auth_call_keeps_tokens:
  assumes "call = Login email password organization_id \<or> call = RefreshAccessToken"
  shows "(sent_of (perform e c call) = [req] \<and> send e req = Inr r \<and> handle_response r = Inl err \<longrightarrow>
            result_of (perform e c call) = Inl err \<and> state_of (perform e c call) = c)
       \<and> (result_of (perform e c call) = Inl (PyException m)
            \<or> result_of (perform e c call) = Inl (HTTPError r')
            \<or> result_of (perform e c call) = Inl JSONDecodeError \<longrightarrow>
          state_of (perform e c call) = c)"
proof (intro conjI impI)
  assume "sent_of (perform e c call) = [req] \<and> send e req = Inr r \<and> handle_response r = Inl err"
  then have "perform e c call = (Inl err, c, [req])"
    using perform_checkpoint_error [of e c call req r err] by blast
  then show "result_of (perform e c call) = Inl err" and "state_of (perform e c call) = c"
    by (simp_all add: result_of_def state_of_def)
next
  assume failed: "result_of (perform e c call) = Inl (PyException m)
            \<or> result_of (perform e c call) = Inl (HTTPError r')
            \<or> result_of (perform e c call) = Inl JSONDecodeError"
  from assms show "state_of (perform e c call) = c"
  proof
    assume "call = Login email password organization_id"
    then show ?thesis
      using failed
      by (auto simp add: login_def result_of_def state_of_def Let_def
          split: sum.splits dest: subscript_error)
  next
    assume "call = RefreshAccessToken"
    then show ?thesis
      using failed
      by (auto simp add: refresh_access_token_def result_of_def state_of_def Let_def
          split: sum.splits if_splits dest: subscript_error)
  qed
qed

theorem failed_auth_call_keeps_tokens_witness:
  "result_of (perform (answering server_error) logged_in RefreshAccessToken) =
     Inl (HTTPError server_error)
   \<and> access_token (state_of (perform (answering server_error) logged_in RefreshAccessToken)) =
       PyStr ''a''
   \<and> refresh_token (state_of (perform (answering server_error) logged_in RefreshAccessToken)) =
       PyStr ''b''"
  using failed_auth_call_keeps_tokens [where call = RefreshAccessToken
      and e = "answering server_error" and c = logged_in and r = server_error
      and err = "HTTPError server_error" and r' = server_error
      and req = "\<lparr>verb = POST, url = ''http://localhost:3000/api/v1/auth/refresh'', headers = None,
                  params = None, json_body = PyDict [(''refreshToken'', PyStr ''b'')]\<rparr>"]
  by (simp add: logged_in_eq refresh_access_token_def sent_of_def handle_response_def
      raise_for_status_def example_defs)



subsection \<open>Refreshing without a refresh token\<close>

text \<open>
  C5. When \<open>refresh_token\<close> is \<open>None\<close>, \<open>refresh_access_token\<close> raises the exception
  with the message \<open>No refresh token available\<close>; it sends no request and the client is
  unchanged.
\<close>

theorem refresh_without_token:
  assumes "refresh_token c = PyNone"
  shows "refresh_access_token e c = (Inl (PyException ''No refresh token available''), c, [])"
  using assms by (simp add: refresh_access_token_def)

theorem refresh_without_token_witness:
  "refresh_access_token (answering login_ok) example_client =
     (Inl (PyException ''No refresh token available''), example_client, [])"
  using refresh_without_token [where c = example_client and e = "answering login_ok"]
  by (simp add: example_client_def init_def)

subsection \<open>The resource methods\<close>

text \<open>
  C7. Whatever the parameters, \<open>get_customers\<close> sends exactly one request: a GET to
  \<open>base_url + "/customers"\<close> with the parameters as they were given (the session renders
  them as the query string). When that request is answered with a 2xx response, the call
  returns the decoded body as it is.
\<close>

theorem get_customers_passes_through:
  assumes "req = \<lparr>verb = GET, url = base_url c @ ''/customers'', headers = Some (get_headers e c),
                  params = Some ps, json_body = PyNone\<rparr>"
  shows "sent_of (get_customers e c ps) = [req]
       \<and> (send e req = Inr r \<and> 200 \<le> status_code r \<and> status_code r < 300
            \<and> json_result r = Some body \<longrightarrow>
          result_of (get_customers e c ps) = Inr body)"
  using assms
  by (auto simp add: get_customers_def sent_of_def result_of_def Let_def handle_response_no_raise
      split: sum.splits)

theorem get_customers_passes_through_witness:
  "sent_of (get_customers (answering customers_page) logged_in
              [(''limit'', PyInt 20), (''offset'', PyInt 0)]) =
     [\<lparr>verb = GET, url = ''http://localhost:3000/api/v1/customers'',
       headers = Some [(''Authorization'', ''Bearer a'')],
       params = Some [(''limit'', PyInt 20), (''offset'', PyInt 0)], json_body = PyNone\<rparr>]
   \<and> result_of (get_customers (answering customers_page) logged_in
                  [(''limit'', PyInt 20), (''offset'', PyInt 0)]) =
       Inr (PyDict [(''data'', PyList []), (''meta'', PyDict [(''total'', PyInt 0)])])"
  using get_customers_passes_through [where c = logged_in and e = "answering customers_page"
      and ps = "[(''limit'', PyInt 20), (''offset'', PyInt 0)]" and r = customers_page
      and body = "PyDict [(''data'', PyList []), (''meta'', PyDict [(''total'', PyInt 0)])]"]
  by (simp add: logged_in_eq get_headers_def example_defs)

text \<open>
  C8. None of \<open>get_customers\<close>, \<open>create_customer\<close>, \<open>get_customer\<close>,
  \<open>create_invoice\<close> and \<open>get_invoices\<close> changes the client, whatever the transport
  answers or raises: \<open>base_url\<close>, \<open>access_token\<close> and \<open>refresh_token\<close> are after the call
  what they were before.
\<close>

theorem resource_calls_keep_client:
  "state_of (get_customers e c ps) = c
   \<and> state_of (create_customer e c customer_data) = c
   \<and> state_of (get_customer e c customer_id) = c
   \<and> state_of (create_invoice e c invoice_data) = c
   \<and> state_of (get_invoices e c ps') = c"
  using resource_call_state [of "GetCustomers ps" e c]
    resource_call_state [of "CreateCustomer customer_data" e c]
    resource_call_state [of "GetCustomer customer_id" e c]
    resource_call_state [of "CreateInvoice invoice_data" e c]
    resource_call_state [of "GetInvoices ps'" e c]
  by simp

theorem resource_calls_keep_client_witness:
  "state_of (get_customers (answering unauthorized) logged_in []) = logged_in
   \<and> state_of (create_customer (answering server_error) logged_in (PyDict [])) = logged_in
   \<and> state_of (get_customer (answering customers_page) logged_in ''42'') = logged_in
   \<and> state_of (create_invoice (answering not_modified) logged_in (PyDict [])) = logged_in
   \<and> state_of (get_invoices (answering login_ok) logged_in []) = logged_in"
  using resource_calls_keep_client [where e = "answering unauthorized" and c = logged_in]
    resource_calls_keep_client [where e = "answering server_error" and c = logged_in]
    resource_calls_keep_client [where e = "answering customers_page" and c = logged_in]
    resource_calls_keep_client [where e = "answering not_modified" and c = logged_in]
    resource_calls_keep_client [where e = "answering login_ok" and c = logged_in]
  by simp

end
